theory Spec2Isabelle
  imports Complex_Main
begin

section \<open>Numbers, errors and the library functions used\<close>

text \<open>
  The node computes with Python floats. They are modelled as real numbers, so rounding,
  signed zeros, infinities and NaN are outside the model. The two exceptions float
  arithmetic raises in this code are in the model, as values: a division by zero raises
  \<^verbatim>\<open>ZeroDivisionError\<close>, and the power operator \<^verbatim>\<open>**\<close> raises \<^verbatim>\<open>OverflowError\<close> when
  its result is too large for a float.
\<close>

datatype error = ZeroDivisionError | OverflowError

text \<open>
  \<^verbatim>\<open>x ** 2\<close> on a float: \<open>2 ^ 512\<close> is the least float whose square exceeds the largest
  float, so the operator raises from that magnitude on.
\<close>

definition sq_limit :: real where
  "sq_limit = 2 ^ 512"

definition float_sq :: "real \<Rightarrow> error + real" where
  "float_sq x = (if sq_limit \<le> \<bar>x\<bar> then Inl OverflowError else Inr (x\<^sup>2))"

text \<open>
  \<^verbatim>\<open>math.atan2(y, x)\<close>: the angle of the point \<open>(x, y)\<close> in \<open>(-pi, pi]\<close>, with
  \<^verbatim>\<open>atan2(0, 0) = 0\<close>.
\<close>

definition atan2 :: "real \<Rightarrow> real \<Rightarrow> real" where
  "atan2 y x =
     (if 0 < x then arctan (y / x)
      else if x < 0 \<and> 0 \<le> y then arctan (y / x) + pi
      else if x < 0 then arctan (y / x) - pi
      else if 0 < y then pi / 2
      else if y < 0 then - (pi / 2)
      else 0)"

section \<open>Messages\<close>

text \<open>\<^verbatim>\<open>geometry_msgs/Twist\<close>: a linear and an angular vector of three floats each.\<close>

record Twist =
  linear_x :: real
  linear_y :: real
  linear_z :: real
  angular_x :: real
  angular_y :: real
  angular_z :: real

text \<open>\<^verbatim>\<open>roboteq_msgs/Command\<close>: the two fields the node sets.\<close>

record Command =
  mode :: int
  setpoint :: real

section \<open>The command node: \<^verbatim>\<open>wm_mecanum_cmd_node.py\<close>\<close>

record MecanumCmd =
  alpha :: real
  beta :: real
  radius :: real
  maxLinearVelocity :: real
  maxAngularVelocity :: real
  gb_ratio :: real

text \<open>
  \<^verbatim>\<open>rospy.get_param(name, default)\<close>: the parameter server is a map from names to
  values, and an absent name gives the default. The values are taken to be floats, as the
  defaults of the geometry are.
\<close>

type_synonym params = "string \<rightharpoonup> real"

definition get_param :: "params \<Rightarrow> string \<Rightarrow> real \<Rightarrow> real" where
  "get_param ps name dflt = (case ps name of None \<Rightarrow> dflt | Some v \<Rightarrow> v)"

text \<open>
  \<^verbatim>\<open>MecanumCmd.__init__\<close>: the six parameters are read in the order of the source; the only
  operation that can fail is \<^verbatim>\<open>pi/divisor\<close>. The subscriber and the four publishers it then
  creates carry no data of their own.
\<close>

definition init :: "params \<Rightarrow> error + MecanumCmd" where
  "init ps =
     (let a = get_param ps ''alpha'' 0.31;
          b = get_param ps ''beta'' 0.30;
          r = get_param ps ''wheel_radius'' 0.075;
          mlv = get_param ps ''max_linear_vel'' 1;
          divisor = get_param ps ''angular_vel_div'' 6
      in if divisor = 0 then Inl ZeroDivisionError
         else Inr \<lparr>alpha = a, beta = b, radius = r, maxLinearVelocity = mlv,
                   maxAngularVelocity = pi / divisor,
                   gb_ratio = get_param ps ''gearbox_ratio'' 15.0\<rparr>)"

text \<open>The inverse kinematics matrix \<^verbatim>\<open>J\<close> of \<^verbatim>\<open>InverseKinematics\<close>.\<close>

definition J :: "MecanumCmd \<Rightarrow> real list list" where
  "J self =
     [[1, -1, -1 * (alpha self + beta self)],
      [1, 1, (alpha self + beta self)],
      [1, 1, -1 * (alpha self + beta self)],
      [1, -1, (alpha self + beta self)]]"

text \<open>
  The right-hand side of the assignment to \<^verbatim>\<open>w[k]\<close>; \<^verbatim>\<open>1/self.radius\<close> raises when the
  radius is zero.
\<close>

definition wheel_k :: "MecanumCmd \<Rightarrow> real \<Rightarrow> real \<Rightarrow> real \<Rightarrow> nat \<Rightarrow> error + real" where
  "wheel_k self xVel yVel yawVel k =
     (if radius self = 0 then Inl ZeroDivisionError
      else Inr (- gb_ratio self / 2 * ((-1) ^ k) * (1 / radius self) *
                (J self ! k ! 0 * xVel + J self ! k ! 1 * yVel + J self ! k ! 2 * yawVel)))"

text \<open>The loop \<^verbatim>\<open>for k in range(len(w))\<close>, which updates \<^verbatim>\<open>w\<close> in place.\<close>

fun IK_loop :: "MecanumCmd \<Rightarrow> real \<Rightarrow> real \<Rightarrow> real \<Rightarrow> nat list \<Rightarrow> real list \<Rightarrow> error + real list" where
  "IK_loop self xVel yVel yawVel [] w = Inr w"
| "IK_loop self xVel yVel yawVel (k # ks) w =
     (case wheel_k self xVel yVel yawVel k of
        Inl e \<Rightarrow> Inl e
      | Inr v \<Rightarrow> IK_loop self xVel yVel yawVel ks (w[k := v]))"

definition InverseKinematics :: "MecanumCmd \<Rightarrow> real \<Rightarrow> real \<Rightarrow> real \<Rightarrow> error + real list" where
  "InverseKinematics self xVel yVel yawVel =
     (let w = [0, 0, 0, 0] in IK_loop self xVel yVel yawVel [0 ..< length w] w)"

text \<open>
  \<^verbatim>\<open>MecanumCmd.callback\<close>, in the order of the source: the clamped linear speed (the two
  squares are taken first, and either may raise), the heading, the recomposed linear
  velocity, the clamped yaw rate (again two squares, then the comparison, then the
  division), the wheel speeds, and the four commands it publishes (front left, front right,
  rear left, rear right). An exception leaves the callback before anything is published.
\<close>

definition cb_vLinear :: "MecanumCmd \<Rightarrow> Twist \<Rightarrow> error + real" where
  "cb_vLinear self twist =
     (case float_sq (linear_x twist) of
        Inl e \<Rightarrow> Inl e
      | Inr xx \<Rightarrow>
          (case float_sq (linear_y twist) of
             Inl e \<Rightarrow> Inl e
           | Inr yy \<Rightarrow>
               (let vLinear = sqrt (xx + yy)
                in Inr (if vLinear > maxLinearVelocity self then maxLinearVelocity self
                        else vLinear))))"

definition cb_Heading :: "Twist \<Rightarrow> real" where
  "cb_Heading twist = atan2 (linear_y twist) (linear_x twist)"

definition cb_xVel :: "real \<Rightarrow> real \<Rightarrow> real" where
  "cb_xVel vLinear Heading = vLinear * cos Heading"

definition cb_yVel :: "real \<Rightarrow> real \<Rightarrow> real" where
  "cb_yVel vLinear Heading = vLinear * sin Heading"

definition cb_yawVel :: "MecanumCmd \<Rightarrow> Twist \<Rightarrow> error + real" where
  "cb_yawVel self twist =
     (let yawVel = angular_z twist
      in case float_sq yawVel of
           Inl e \<Rightarrow> Inl e
         | Inr yy \<Rightarrow>
             (case float_sq (maxAngularVelocity self) of
                Inl e \<Rightarrow> Inl e
              | Inr mm \<Rightarrow>
                  if yy > mm
                  then (if \<bar>yawVel\<bar> = 0 then Inl ZeroDivisionError
                        else Inr (maxAngularVelocity self * yawVel / \<bar>yawVel\<bar>))
                  else Inr yawVel))"

definition cb_w :: "MecanumCmd \<Rightarrow> Twist \<Rightarrow> error + real list" where
  "cb_w self twist =
     (case cb_vLinear self twist of
        Inl e \<Rightarrow> Inl e
      | Inr vLinear \<Rightarrow>
          (let Heading = cb_Heading twist;
               xVel = cb_xVel vLinear Heading;
               yVel = cb_yVel vLinear Heading
           in case cb_yawVel self twist of
                Inl e \<Rightarrow> Inl e
              | Inr yawVel \<Rightarrow> InverseKinematics self xVel yVel yawVel))"

definition callback :: "MecanumCmd \<Rightarrow> Twist \<Rightarrow> error + Command list" where
  "callback self twist =
     (case cb_w self twist of
        Inl e \<Rightarrow> Inl e
      | Inr w \<Rightarrow>
          Inr [\<lparr>mode = 0, setpoint = w ! 0\<rparr>, \<lparr>mode = 0, setpoint = w ! 1\<rparr>,
               \<lparr>mode = 0, setpoint = w ! 2\<rparr>, \<lparr>mode = 0, setpoint = w ! 3\<rparr>])"

section \<open>The feedback node: \<^verbatim>\<open>wm_mecanum_cmd_test.py\<close>\<close>

text \<open>
  The class of the second file has the same name and no gearbox ratio; its fields and
  functions carry the suffix \<open>_test\<close> here.
\<close>

record MecanumCmd_test =
  radius_test :: real
  alpha_test :: real
  beta_test :: real
  maxLinearVelocity_test :: real
  maxAngularVelocity_test :: real

definition init_test :: MecanumCmd_test where
  "init_test =
     \<lparr>radius_test = 0.15 / 2, alpha_test = 0.31, beta_test = 0.3,
      maxLinearVelocity_test = 1, maxAngularVelocity_test = pi / 6\<rparr>"

definition J_test :: "MecanumCmd_test \<Rightarrow> real list list" where
  "J_test self =
     [[1, -1, -1 * (alpha_test self + beta_test self)],
      [1, 1, (alpha_test self + beta_test self)],
      [1, 1, -1 * (alpha_test self + beta_test self)],
      [1, -1, (alpha_test self + beta_test self)]]"

definition wheel_k_test :: "MecanumCmd_test \<Rightarrow> real \<Rightarrow> real \<Rightarrow> real \<Rightarrow> nat \<Rightarrow> error + real" where
  "wheel_k_test self xVel yVel yawVel k =
     (if radius_test self = 0 then Inl ZeroDivisionError
      else Inr (((-1) ^ k) * (1 / radius_test self) *
                (J_test self ! k ! 0 * xVel + J_test self ! k ! 1 * yVel
                 + J_test self ! k ! 2 * yawVel)))"

fun IK_loop_test ::
  "MecanumCmd_test \<Rightarrow> real \<Rightarrow> real \<Rightarrow> real \<Rightarrow> nat list \<Rightarrow> real list \<Rightarrow> error + real list" where
  "IK_loop_test self xVel yVel yawVel [] w = Inr w"
| "IK_loop_test self xVel yVel yawVel (k # ks) w =
     (case wheel_k_test self xVel yVel yawVel k of
        Inl e \<Rightarrow> Inl e
      | Inr v \<Rightarrow> IK_loop_test self xVel yVel yawVel ks (w[k := v]))"

definition InverseKinematics_test ::
  "MecanumCmd_test \<Rightarrow> real \<Rightarrow> real \<Rightarrow> real \<Rightarrow> error + real list" where
  "InverseKinematics_test self xVel yVel yawVel =
     (let w = [0, 0, 0, 0] in IK_loop_test self xVel yVel yawVel [0 ..< length w] w)"

section \<open>The defaults, and the transform as the specification words it\<close>

text \<open>The configuration \<^verbatim>\<open>__init__\<close> builds when no parameter is set.\<close>

definition default_geometry :: MecanumCmd where
  "default_geometry =
     \<lparr>alpha = 0.31, beta = 0.30, radius = 0.075, maxLinearVelocity = 1,
      maxAngularVelocity = pi / 6, gb_ratio = 15.0\<rparr>"

text \<open>
  The specification gives one coefficient row per wheel index (0 front left, 1 front right,
  2 rear left, 3 rear right), the raw wheel velocity as the dot product of the row with
  \<open>(xVel, yVel, yawVel)\<close>, and the wheel speed as
  \<open>- (-1)^k * (gearboxRatio / 2) * (1 / wheelRadius) * raw\<close>. These three definitions
  follow its words, to be compared with \<open>InverseKinematics\<close>.
\<close>

definition spec_row :: "real \<Rightarrow> real \<Rightarrow> nat \<Rightarrow> real \<times> real \<times> real" where
  "spec_row a b k =
     (if k = 0 then (1, -1, - (a + b))
      else if k = 1 then (1, 1, (a + b))
      else if k = 2 then (1, 1, - (a + b))
      else (1, -1, (a + b)))"

definition spec_dot :: "real \<times> real \<times> real \<Rightarrow> real \<times> real \<times> real \<Rightarrow> real" where
  "spec_dot r v =
     (case r of (r0, r1, r2) \<Rightarrow> case v of (v0, v1, v2) \<Rightarrow> r0 * v0 + r1 * v1 + r2 * v2)"

definition spec_wheel :: "MecanumCmd \<Rightarrow> real \<Rightarrow> real \<Rightarrow> real \<Rightarrow> nat \<Rightarrow> real" where
  "spec_wheel self xVel yVel yawVel k =
     - ((-1) ^ k) * (gb_ratio self / 2) * (1 / radius self) *
       spec_dot (spec_row (alpha self) (beta self) k) (xVel, yVel, yawVel)"

text \<open>A planar velocity command: the three components of the message the node reads.\<close>

definition planar_twist :: "real \<Rightarrow> real \<Rightarrow> real \<Rightarrow> Twist" where
  "planar_twist vx vy wz =
     \<lparr>linear_x = vx, linear_y = vy, linear_z = 0,
      angular_x = 0, angular_y = 0, angular_z = wz\<rparr>"

section \<open>Closed forms of the two transforms\<close>

lemma upt_4: "[0 ..< 4] = [0, 1, 2, 3]"
  by (simp add: upt_rec)

lemma InverseKinematics_closed:
  "InverseKinematics self xVel yVel yawVel =
     (if radius self = 0 then Inl ZeroDivisionError
      else Inr [- gb_ratio self / 2 * (1 / radius self) * (xVel - yVel - (alpha self + beta self) * yawVel),
                gb_ratio self / 2 * (1 / radius self) * (xVel + yVel + (alpha self + beta self) * yawVel),
                - gb_ratio self / 2 * (1 / radius self) * (xVel + yVel - (alpha self + beta self) * yawVel),
                gb_ratio self / 2 * (1 / radius self) * (xVel - yVel + (alpha self + beta self) * yawVel)])"
  by (simp add: InverseKinematics_def upt_4 wheel_k_def J_def algebra_simps)

lemma InverseKinematics_test_closed:
  "InverseKinematics_test self xVel yVel yawVel =
     (if radius_test self = 0 then Inl ZeroDivisionError
      else Inr [(1 / radius_test self) * (xVel - yVel - (alpha_test self + beta_test self) * yawVel),
                - (1 / radius_test self) * (xVel + yVel + (alpha_test self + beta_test self) * yawVel),
                (1 / radius_test self) * (xVel + yVel - (alpha_test self + beta_test self) * yawVel),
                - (1 / radius_test self) * (xVel - yVel + (alpha_test self + beta_test self) * yawVel)])"
  by (simp add: InverseKinematics_test_def upt_4 wheel_k_test_def J_test_def algebra_simps)

section \<open>The angle function\<close>

lemma atan2_range: "- pi < atan2 y x \<and> atan2 y x \<le> pi"
proof -
  have b: "- (pi / 2) < arctan (y / x)" "arctan (y / x) < pi / 2"
    by (rule arctan_lbound, rule arctan_ubound)
  have p: "0 < pi" by simp
  consider "0 < x" | "x < 0" "0 \<le> y" | "x < 0" "y < 0" | "x = 0"
    by linarith
  then show ?thesis
  proof cases
    case 1
    then show ?thesis using b p by (simp add: atan2_def)
  next
    case 2
    then have "y / x \<le> 0" by (simp add: divide_nonneg_neg)
    then have "arctan (y / x) \<le> 0" by (simp add: arctan_le_zero_iff)
    then show ?thesis using 2 b p by (simp add: atan2_def)
  next
    case 3
    then have "0 < y / x" by (simp add: divide_neg_neg)
    then have "0 < arctan (y / x)" by (simp add: zero_less_arctan_iff)
    then show ?thesis using 3 b p by (simp add: atan2_def)
  next
    case 4
    have q: "- (pi / 2) \<le> pi" "- pi < pi / 2" "- pi < - (pi / 2)" "pi / 2 \<le> pi"
      using p by linarith+
    show ?thesis
      unfolding atan2_def using 4 q p by (auto simp del: pi_gt_zero)
  qed
qed

lemma sqrt_sum_factor:
  assumes "x \<noteq> 0"
  shows "sqrt (x\<^sup>2 + y\<^sup>2) = \<bar>x\<bar> * sqrt (1 + (y / x)\<^sup>2)"
proof -
  have "x\<^sup>2 + y\<^sup>2 = x\<^sup>2 * (1 + (y / x)\<^sup>2)"
    using assms by (simp add: field_simps power2_eq_square)
  then have "sqrt (x\<^sup>2 + y\<^sup>2) = sqrt (x\<^sup>2) * sqrt (1 + (y / x)\<^sup>2)"
    by (simp add: real_sqrt_mult)
  then show ?thesis by simp
qed

lemma sqrt_one_plus_pos: "0 < sqrt (1 + (t::real)\<^sup>2)"
  by (simp add: add_pos_nonneg)

lemma cos_atan2: "sqrt (x\<^sup>2 + y\<^sup>2) * cos (atan2 y x) = x"
proof -
  consider "0 < x" | "x < 0" | "x = 0" by linarith
  then show ?thesis
  proof cases
    case 1
    then show ?thesis
      using sqrt_sum_factor [of x y] sqrt_one_plus_pos [of "y / x"]
      by (simp add: atan2_def cos_arctan)
  next
    case 2
    then show ?thesis
      using sqrt_sum_factor [of x y] sqrt_one_plus_pos [of "y / x"]
      by (simp add: atan2_def cos_arctan)
  next
    case 3
    then show ?thesis by (simp add: atan2_def)
  qed
qed

lemma sin_atan2: "sqrt (x\<^sup>2 + y\<^sup>2) * sin (atan2 y x) = y"
proof -
  consider "0 < x" | "x < 0" | "x = 0" by linarith
  then show ?thesis
  proof cases
    case 1
    then show ?thesis
      using sqrt_sum_factor [of x y] sqrt_one_plus_pos [of "y / x"]
      by (simp add: atan2_def sin_arctan)
  next
    case 2
    then show ?thesis
      using sqrt_sum_factor [of x y] sqrt_one_plus_pos [of "y / x"]
      by (simp add: atan2_def sin_arctan)
  next
    case 3
    then show ?thesis by (simp add: atan2_def)
  qed
qed

lemma angle_unique:
  assumes "cos a = cos h" "sin a = sin h" "- pi < a" "a \<le> pi" "- pi < h" "h \<le> pi"
  shows "a = h"
proof -
  obtain n :: int where n: "a = h + 2 * pi * of_int n"
    using assms(1,2) sin_cos_eq_iff [of a h] by auto
  have "\<bar>a - h\<bar> < 2 * pi" using assms(3-6) by linarith
  then have "\<bar>2 * pi * of_int n\<bar> < 2 * pi * 1" using n by simp
  then have "\<bar>real_of_int n\<bar> < 1"
    by (simp add: abs_mult)
  then have "n = 0" by linarith
  then show ?thesis using n by simp
qed

lemma atan2_polar:
  assumes "0 < r" "- pi < h" "h \<le> pi"
  shows "atan2 (r * sin h) (r * cos h) = h"
proof -
  let ?a = "atan2 (r * sin h) (r * cos h)"
  have "(r * cos h)\<^sup>2 + (r * sin h)\<^sup>2 = r\<^sup>2"
    by (simp add: power_mult_distrib distrib_left [symmetric])
  then have s: "sqrt ((r * cos h)\<^sup>2 + (r * sin h)\<^sup>2) = r"
    using assms(1) by simp
  have "r * cos ?a = r * cos h"
    using cos_atan2 [of "r * cos h" "r * sin h"] s by simp
  then have c: "cos ?a = cos h" using assms(1) by simp
  have "r * sin ?a = r * sin h"
    using sin_atan2 [of "r * cos h" "r * sin h"] s by simp
  then have d: "sin ?a = sin h" using assms(1) by simp
  show ?thesis
    using angle_unique [OF c d] atan2_range [of "r * sin h" "r * cos h"] assms(2,3) by simp
qed

section \<open>The inverse kinematics transform\<close>

text \<open>
  Claim C1. For every input \<open>(xVel, yVel, yawVel)\<close> and every geometry whose wheel radius is
  not zero, \<open>InverseKinematics\<close> returns the four wheel speeds, and the speed of index
  \<open>k\<close> is \<open>- (-1)^k * (gb_ratio / 2) * (1 / radius)\<close> times the dot product of the
  specification's row \<open>k\<close> with the input. (With a zero radius the division
  \<^verbatim>\<open>1/self.radius\<close> raises, see \<open>InverseKinematics_closed\<close>.)
\<close>

theorem C1_wheel_speed_formula:
  "radius self \<noteq> 0 \<Longrightarrow>
   InverseKinematics self xVel yVel yawVel =
     Inr (map (spec_wheel self xVel yVel yawVel) [0 ..< 4])"
  by (simp add: InverseKinematics_closed upt_4 spec_wheel_def spec_row_def spec_dot_def
      algebra_simps)

theorem C1_wheel_speed_formula_witness:
  "radius default_geometry \<noteq> 0 \<and>
   InverseKinematics default_geometry 1 0 0 =
     Inr (map (spec_wheel default_geometry 1 0 0) [0 ..< 4]) \<and>
   map (spec_wheel default_geometry 1 0 0) [0 ..< 4] = [-100, 100, -100, 100]"
  using C1_wheel_speed_formula [of default_geometry 1 0 0]
  by (simp add: default_geometry_def upt_4 spec_wheel_def spec_row_def spec_dot_def)

text \<open>
  Claim C6. With the same \<open>alpha\<close>, \<open>beta\<close> and wheel radius, every wheel speed of the
  command node is \<open>- (gb_ratio / 2)\<close> times the wheel speed of the feedback node for the
  same input; when the radius is zero both raise the same error.
\<close>

theorem C6_command_vs_feedback:
  "alpha_test t = alpha self \<Longrightarrow> beta_test t = beta self \<Longrightarrow> radius_test t = radius self \<Longrightarrow>
   InverseKinematics self xVel yVel yawVel =
     map_sum id (map (\<lambda>w. - (gb_ratio self / 2) * w)) (InverseKinematics_test t xVel yVel yawVel)"
  by (simp add: InverseKinematics_closed InverseKinematics_test_closed)

theorem C6_command_vs_feedback_witness:
  "alpha_test init_test = alpha default_geometry \<and>
   beta_test init_test = beta default_geometry \<and>
   radius_test init_test = radius default_geometry \<and>
   InverseKinematics_test init_test 1 2 3 = Inr [- (566 / 15), - (322 / 5), 78 / 5, - (166 / 15)] \<and>
   InverseKinematics default_geometry 1 2 3 =
     map_sum id (map (\<lambda>w. - (gb_ratio default_geometry / 2) * w))
       (InverseKinematics_test init_test 1 2 3)"
  using C6_command_vs_feedback [of init_test default_geometry 1 2 3]
  by (simp add: default_geometry_def init_test_def InverseKinematics_test_closed)

section \<open>The overflow limit of the power operator\<close>

lemma sq_limit_pos: "0 < sq_limit"
  by (simp add: sq_limit_def)

lemma small_below_sq_limit:
  assumes "\<bar>x\<bar> \<le> 4096"
  shows "\<bar>x\<bar> < sq_limit"
proof -
  have "(2::real) ^ 12 < 2 ^ 512" by (rule power_strict_increasing) simp_all
  moreover have "(2::real) ^ 12 = 4096" by simp
  ultimately have "4096 < sq_limit" unfolding sq_limit_def by linarith
  then show ?thesis using assms by linarith
qed

lemma pi_sixth_small: "\<bar>pi / 6\<bar> \<le> 4096"
proof -
  have "0 < pi" "pi < 4" using pi_gt_zero pi_less_4 by simp_all
  then show ?thesis by simp
qed

lemma float_sq_below: "\<bar>x\<bar> < sq_limit \<Longrightarrow> float_sq x = Inr (x\<^sup>2)"
  by (simp add: float_sq_def)

lemma float_sq_above: "sq_limit \<le> \<bar>x\<bar> \<Longrightarrow> float_sq x = Inl OverflowError"
  by (simp add: float_sq_def)

section \<open>The angular clamp\<close>

lemma cb_yawVel_closed:
  "cb_yawVel self twist =
     (if sq_limit \<le> \<bar>angular_z twist\<bar> \<or> sq_limit \<le> \<bar>maxAngularVelocity self\<bar>
      then Inl OverflowError
      else Inr (if (angular_z twist)\<^sup>2 > (maxAngularVelocity self)\<^sup>2
                then maxAngularVelocity self * sgn (angular_z twist) else angular_z twist))"
proof (cases "sq_limit \<le> \<bar>angular_z twist\<bar>")
  case True
  then show ?thesis by (simp add: cb_yawVel_def float_sq_above)
next
  case z: False
  then have fz: "float_sq (angular_z twist) = Inr ((angular_z twist)\<^sup>2)"
    by (simp add: float_sq_below)
  show ?thesis
  proof (cases "sq_limit \<le> \<bar>maxAngularVelocity self\<bar>")
    case True
    then show ?thesis using z by (simp add: cb_yawVel_def fz float_sq_above)
  next
    case m: False
    then have fm: "float_sq (maxAngularVelocity self) = Inr ((maxAngularVelocity self)\<^sup>2)"
      by (simp add: float_sq_below)
    show ?thesis
    proof (cases "(angular_z twist)\<^sup>2 > (maxAngularVelocity self)\<^sup>2")
      case True
      have "0 \<le> (maxAngularVelocity self)\<^sup>2" by simp
      then have "0 < (angular_z twist)\<^sup>2" using True by linarith
      then have "angular_z twist \<noteq> 0" by auto
      then show ?thesis using True z m
        by (simp add: cb_yawVel_def fz fm sgn_real_def abs_real_def)
    next
      case False
      then show ?thesis using z m by (simp add: cb_yawVel_def fz fm)
    qed
  qed
qed

lemma pi_sixth_sq_less_1: "(pi / 6)\<^sup>2 < 1"
proof -
  have "pi < 6" using pi_less_4 by linarith
  then have "pi / 6 < 1" "0 \<le> pi / 6" by simp_all
  then have "(pi / 6)\<^sup>2 < 1\<^sup>2" by (intro power_strict_mono) simp_all
  then show ?thesis by simp
qed

lemma clamp_abs_le:
  assumes "0 \<le> (M::real)"
  shows "\<bar>if wz\<^sup>2 > M\<^sup>2 then M * sgn wz else wz\<bar> \<le> M"
proof (cases "wz\<^sup>2 > M\<^sup>2")
  case True
  then show ?thesis using assms by (simp add: abs_mult sgn_real_def)
next
  case False
  then have "wz\<^sup>2 \<le> M\<^sup>2" by simp
  then have "\<bar>wz\<bar> \<le> \<bar>M\<bar>" by (simp add: abs_le_square_iff)
  then show ?thesis using assms False by simp
qed

text \<open>
  Claim C8, amended. The angular clamp never divides by zero, whatever the yaw rate and the
  configuration: the division by \<open>\<bar>yawVel\<bar>\<close> is only reached when
  \<open>yawVel\<^sup>2 > maxAngularVelocity\<^sup>2\<close>, and there \<open>\<bar>yawVel\<bar>\<close> is positive. The clamp is not total:
  it returns a value exactly when the yaw rate and \<open>maxAngularVelocity\<close> are below \<open>2 ^ 512\<close>
  in absolute value, and raises \<^verbatim>\<open>OverflowError\<close> from one of the two squares otherwise.
\<close>

theorem C8_angular_clamp_errors:
  "cb_yawVel self twist \<noteq> Inl ZeroDivisionError \<and>
   ((\<exists>c. cb_yawVel self twist = Inr c) \<longleftrightarrow>
      \<bar>angular_z twist\<bar> < sq_limit \<and> \<bar>maxAngularVelocity self\<bar> < sq_limit) \<and>
   (cb_yawVel self twist = Inl OverflowError \<longleftrightarrow>
      sq_limit \<le> \<bar>angular_z twist\<bar> \<or> sq_limit \<le> \<bar>maxAngularVelocity self\<bar>) \<and>
   ((angular_z twist)\<^sup>2 > (maxAngularVelocity self)\<^sup>2 \<longrightarrow> 0 < \<bar>angular_z twist\<bar>)"
proof (intro conjI impI)
  show "cb_yawVel self twist \<noteq> Inl ZeroDivisionError"
    by (simp add: cb_yawVel_closed)
  show "(\<exists>c. cb_yawVel self twist = Inr c) \<longleftrightarrow>
      \<bar>angular_z twist\<bar> < sq_limit \<and> \<bar>maxAngularVelocity self\<bar> < sq_limit"
    by (auto simp add: cb_yawVel_closed not_le split: if_splits)
  show "cb_yawVel self twist = Inl OverflowError \<longleftrightarrow>
      sq_limit \<le> \<bar>angular_z twist\<bar> \<or> sq_limit \<le> \<bar>maxAngularVelocity self\<bar>"
    by (simp add: cb_yawVel_closed)
next
  assume a: "(angular_z twist)\<^sup>2 > (maxAngularVelocity self)\<^sup>2"
  have "0 \<le> (maxAngularVelocity self)\<^sup>2" by simp
  then have "0 < (angular_z twist)\<^sup>2" using a by linarith
  then show "0 < \<bar>angular_z twist\<bar>" by auto
qed

theorem C8_angular_clamp_errors_witness:
  "(angular_z (planar_twist 0 0 1))\<^sup>2 > (maxAngularVelocity default_geometry)\<^sup>2 \<and>
   0 < \<bar>angular_z (planar_twist 0 0 1)\<bar> \<and>
   cb_yawVel default_geometry (planar_twist 0 0 1) = Inr (pi / 6)"
proof -
  have h: "(angular_z (planar_twist 0 0 1))\<^sup>2 > (maxAngularVelocity default_geometry)\<^sup>2"
    using pi_sixth_sq_less_1 by (simp add: planar_twist_def default_geometry_def)
  have s: "\<not> (sq_limit \<le> \<bar>angular_z (planar_twist 0 0 1)\<bar>
              \<or> sq_limit \<le> \<bar>maxAngularVelocity default_geometry\<bar>)"
    using small_below_sq_limit [OF pi_sixth_small] small_below_sq_limit [of 1]
    by (simp add: planar_twist_def default_geometry_def not_le)
  have v: "cb_yawVel default_geometry (planar_twist 0 0 1) = Inr (pi / 6)"
    using h s by (simp add: cb_yawVel_closed)
      (simp add: planar_twist_def default_geometry_def)
  show ?thesis
    using h v C8_angular_clamp_errors [of default_geometry "planar_twist 0 0 1"] by simp
qed

text \<open>
  A yaw rate of \<open>2 ^ 512\<close> with the default geometry: the square in the test of the clamp
  raises, and the clamp returns no yaw rate.
\<close>

theorem C8_angular_clamp_counterexample:
  "cb_yawVel default_geometry (planar_twist 0 0 (2 ^ 512)) = Inl OverflowError"
  by (simp add: cb_yawVel_closed planar_twist_def sq_limit_def)

text \<open>
  Claim C4, amended. With a positive \<open>maxAngularVelocity\<close>, and the yaw rate and
  \<open>maxAngularVelocity\<close> below \<open>2 ^ 512\<close> in absolute value, the clamp returns a yaw rate that
  is at most \<open>maxAngularVelocity\<close> in absolute value; when
  \<open>yawVel\<^sup>2 > maxAngularVelocity\<^sup>2\<close> it is \<open>maxAngularVelocity * sgn yawVel\<close>, with the sign of
  the input, and otherwise it is the input unchanged. From \<open>2 ^ 512\<close> on the clamp raises
  \<^verbatim>\<open>OverflowError\<close> and returns no yaw rate.
\<close>

theorem C4_angular_clamp:
  assumes "0 < maxAngularVelocity self"
  shows "if sq_limit \<le> \<bar>angular_z twist\<bar> \<or> sq_limit \<le> \<bar>maxAngularVelocity self\<bar>
         then cb_yawVel self twist = Inl OverflowError
         else (\<exists>c. cb_yawVel self twist = Inr c \<and> \<bar>c\<bar> \<le> maxAngularVelocity self \<and>
                 (if (angular_z twist)\<^sup>2 > (maxAngularVelocity self)\<^sup>2
                  then c = maxAngularVelocity self * sgn (angular_z twist) \<and>
                       sgn c = sgn (angular_z twist)
                  else c = angular_z twist))"
proof (cases "sq_limit \<le> \<bar>angular_z twist\<bar> \<or> sq_limit \<le> \<bar>maxAngularVelocity self\<bar>")
  case True
  then show ?thesis by (simp add: cb_yawVel_closed)
next
  case n: False
  show ?thesis
  proof (cases "(angular_z twist)\<^sup>2 > (maxAngularVelocity self)\<^sup>2")
    case True
    then show ?thesis using assms n
      by (simp add: cb_yawVel_closed abs_mult sgn_mult)
  next
    case False
    then have "\<bar>if (angular_z twist)\<^sup>2 > (maxAngularVelocity self)\<^sup>2
                then maxAngularVelocity self * sgn (angular_z twist) else angular_z twist\<bar>
               \<le> maxAngularVelocity self"
      using assms by (intro clamp_abs_le) simp
    then show ?thesis using assms n False by (simp add: cb_yawVel_closed)
  qed
qed

theorem C4_angular_clamp_witness:
  "0 < maxAngularVelocity default_geometry \<and>
   (\<exists>c. cb_yawVel default_geometry (planar_twist 0 0 (-1)) = Inr c \<and> c = - (pi / 6) \<and>
        \<bar>c\<bar> \<le> maxAngularVelocity default_geometry)"
proof -
  have h: "0 < maxAngularVelocity default_geometry" by (simp add: default_geometry_def)
  have b: "(angular_z (planar_twist 0 0 (-1)))\<^sup>2 > (maxAngularVelocity default_geometry)\<^sup>2"
    using pi_sixth_sq_less_1 by (simp add: planar_twist_def default_geometry_def)
  have s: "\<not> (sq_limit \<le> \<bar>angular_z (planar_twist 0 0 (-1))\<bar>
              \<or> sq_limit \<le> \<bar>maxAngularVelocity default_geometry\<bar>)"
    using small_below_sq_limit [OF pi_sixth_small] small_below_sq_limit [of 1]
    by (simp add: planar_twist_def default_geometry_def not_le)
  show ?thesis
    using h b s C4_angular_clamp [OF h, of "planar_twist 0 0 (-1)"]
    by (auto simp add: planar_twist_def default_geometry_def)
qed

text \<open>
  Startup accepts a negative \<open>angular_vel_div\<close>; \<open>maxAngularVelocity\<close> is then negative, and
  the clamp turns the yaw rate 3 into \<open>- (pi / 6)\<close>: the bound fails and the sign is
  reversed.
\<close>

theorem C4_angular_clamp_counterexample:
  "init (Map.empty(''angular_vel_div'' \<mapsto> - 6)) =
     Inr (default_geometry\<lparr>maxAngularVelocity := - (pi / 6)\<rparr>) \<and>
   cb_yawVel (default_geometry\<lparr>maxAngularVelocity := - (pi / 6)\<rparr>) (planar_twist 0 0 3) =
     Inr (- (pi / 6)) \<and>
   \<not> \<bar>- (pi / 6)\<bar> \<le> maxAngularVelocity (default_geometry\<lparr>maxAngularVelocity := - (pi / 6)\<rparr>) \<and>
   sgn (- (pi / 6)) \<noteq> sgn (3::real)"
proof -
  let ?g = "default_geometry\<lparr>maxAngularVelocity := - (pi / 6)\<rparr>"
  have i: "init (Map.empty(''angular_vel_div'' \<mapsto> - 6)) = Inr ?g"
    by (simp add: init_def get_param_def default_geometry_def)
  have "(pi / 6)\<^sup>2 < 9" using pi_sixth_sq_less_1 by linarith
  then have b: "(angular_z (planar_twist 0 0 3))\<^sup>2 > (maxAngularVelocity ?g)\<^sup>2"
    by (simp add: planar_twist_def)
  have s: "\<not> (sq_limit \<le> \<bar>angular_z (planar_twist 0 0 3)\<bar>
              \<or> sq_limit \<le> \<bar>maxAngularVelocity ?g\<bar>)"
    using small_below_sq_limit [OF pi_sixth_small] small_below_sq_limit [of 3]
    by (simp add: planar_twist_def not_le)
  have c: "cb_yawVel ?g (planar_twist 0 0 3) = Inr (- (pi / 6))"
    using b s by (simp add: cb_yawVel_closed) (simp add: planar_twist_def)
  show ?thesis using i c by (simp add: sgn_real_def not_le)
qed

section \<open>The linear clamp\<close>

lemma cb_Heading_range: "- pi < cb_Heading twist \<and> cb_Heading twist \<le> pi"
  by (simp add: cb_Heading_def atan2_range)

lemma cb_vLinear_closed:
  "cb_vLinear self twist =
     (if sq_limit \<le> \<bar>linear_x twist\<bar> \<or> sq_limit \<le> \<bar>linear_y twist\<bar> then Inl OverflowError
      else Inr (min (sqrt ((linear_x twist)\<^sup>2 + (linear_y twist)\<^sup>2)) (maxLinearVelocity self)))"
  by (simp add: cb_vLinear_def float_sq_def min_def)

lemma cb_recompose:
  "cb_xVel (sqrt ((linear_x twist)\<^sup>2 + (linear_y twist)\<^sup>2)) (cb_Heading twist) = linear_x twist"
  "cb_yVel (sqrt ((linear_x twist)\<^sup>2 + (linear_y twist)\<^sup>2)) (cb_Heading twist) = linear_y twist"
  using cos_atan2 [of "linear_x twist" "linear_y twist"]
    sin_atan2 [of "linear_x twist" "linear_y twist"]
  by (simp_all add: cb_xVel_def cb_yVel_def cb_Heading_def)

lemma cb_norm: "sqrt ((cb_xVel v h)\<^sup>2 + (cb_yVel v h)\<^sup>2) = \<bar>v\<bar>"
proof -
  have "(cb_xVel v h)\<^sup>2 + (cb_yVel v h)\<^sup>2 = v\<^sup>2"
    by (simp add: cb_xVel_def cb_yVel_def power_mult_distrib distrib_left [symmetric])
  then show ?thesis by simp
qed

text \<open>
  Claim C3. Unless one of the two squares overflows, the clamped linear speed is the
  minimum of the input magnitude and \<open>maxLinearVelocity\<close>, so it never exceeds
  \<open>maxLinearVelocity\<close>; and whenever it is positive, the heading of the recomposed velocity
  \<open>(xVel, yVel)\<close> is the heading of the input.
\<close>

theorem C3_linear_clamp_heading:
  "cb_vLinear self twist =
     (if sq_limit \<le> \<bar>linear_x twist\<bar> \<or> sq_limit \<le> \<bar>linear_y twist\<bar> then Inl OverflowError
      else Inr (min (sqrt ((linear_x twist)\<^sup>2 + (linear_y twist)\<^sup>2)) (maxLinearVelocity self))) \<and>
   min (sqrt ((linear_x twist)\<^sup>2 + (linear_y twist)\<^sup>2)) (maxLinearVelocity self)
     \<le> maxLinearVelocity self \<and>
   (0 < min (sqrt ((linear_x twist)\<^sup>2 + (linear_y twist)\<^sup>2)) (maxLinearVelocity self) \<longrightarrow>
      atan2 (cb_yVel (min (sqrt ((linear_x twist)\<^sup>2 + (linear_y twist)\<^sup>2))
                          (maxLinearVelocity self)) (cb_Heading twist))
            (cb_xVel (min (sqrt ((linear_x twist)\<^sup>2 + (linear_y twist)\<^sup>2))
                          (maxLinearVelocity self)) (cb_Heading twist))
        = atan2 (linear_y twist) (linear_x twist))"
proof (intro conjI impI)
  show "cb_vLinear self twist =
     (if sq_limit \<le> \<bar>linear_x twist\<bar> \<or> sq_limit \<le> \<bar>linear_y twist\<bar> then Inl OverflowError
      else Inr (min (sqrt ((linear_x twist)\<^sup>2 + (linear_y twist)\<^sup>2)) (maxLinearVelocity self)))"
    by (rule cb_vLinear_closed)
  show "min (sqrt ((linear_x twist)\<^sup>2 + (linear_y twist)\<^sup>2)) (maxLinearVelocity self)
     \<le> maxLinearVelocity self"
    by simp
next
  let ?v = "min (sqrt ((linear_x twist)\<^sup>2 + (linear_y twist)\<^sup>2)) (maxLinearVelocity self)"
  assume pos: "0 < ?v"
  have "atan2 (?v * sin (cb_Heading twist)) (?v * cos (cb_Heading twist)) = cb_Heading twist"
    using pos cb_Heading_range [of twist] by (intro atan2_polar) simp_all
  then show "atan2 (cb_yVel ?v (cb_Heading twist)) (cb_xVel ?v (cb_Heading twist))
               = atan2 (linear_y twist) (linear_x twist)"
    by (simp add: cb_xVel_def cb_yVel_def cb_Heading_def)
qed

theorem C3_linear_clamp_heading_witness:
  "0 < min (sqrt ((linear_x (planar_twist 0 2 0))\<^sup>2 + (linear_y (planar_twist 0 2 0))\<^sup>2))
           (maxLinearVelocity default_geometry) \<and>
   cb_vLinear default_geometry (planar_twist 0 2 0) = Inr 1 \<and>
   atan2 (cb_yVel 1 (cb_Heading (planar_twist 0 2 0))) (cb_xVel 1 (cb_Heading (planar_twist 0 2 0)))
     = atan2 2 0"
proof -
  have m: "min (sqrt ((linear_x (planar_twist 0 2 0))\<^sup>2 + (linear_y (planar_twist 0 2 0))\<^sup>2))
               (maxLinearVelocity default_geometry) = 1"
    by (simp add: planar_twist_def default_geometry_def)
  have s: "\<not> (sq_limit \<le> \<bar>linear_x (planar_twist 0 2 0)\<bar>
              \<or> sq_limit \<le> \<bar>linear_y (planar_twist 0 2 0)\<bar>)"
    using small_below_sq_limit [of 0] small_below_sq_limit [of 2]
    by (simp add: planar_twist_def not_le)
  have l: "linear_x (planar_twist 0 2 0) = 0" "linear_y (planar_twist 0 2 0) = 2"
    by (simp_all add: planar_twist_def)
  show ?thesis
    using C3_linear_clamp_heading [of default_geometry "planar_twist 0 2 0"]
    unfolding m using s l by simp
qed

text \<open>
  Claim C7. An input whose magnitude equals \<open>maxLinearVelocity\<close> is not clamped, and the
  recomposed \<open>(xVel, yVel)\<close> is the input \<open>(linear_x, linear_y)\<close>; an input whose magnitude
  is greater has its linear speed replaced by \<open>maxLinearVelocity\<close>, and the recomposed
  velocity has that magnitude. In both cases the linear speed is returned unless one of
  the two squares overflows.
\<close>

theorem C7_saturation_boundary:
  "(sqrt ((linear_x twist)\<^sup>2 + (linear_y twist)\<^sup>2) = maxLinearVelocity self \<longrightarrow>
      cb_vLinear self twist =
        (if sq_limit \<le> \<bar>linear_x twist\<bar> \<or> sq_limit \<le> \<bar>linear_y twist\<bar> then Inl OverflowError
         else Inr (sqrt ((linear_x twist)\<^sup>2 + (linear_y twist)\<^sup>2))) \<and>
      cb_xVel (sqrt ((linear_x twist)\<^sup>2 + (linear_y twist)\<^sup>2)) (cb_Heading twist)
        = linear_x twist \<and>
      cb_yVel (sqrt ((linear_x twist)\<^sup>2 + (linear_y twist)\<^sup>2)) (cb_Heading twist)
        = linear_y twist) \<and>
   (sqrt ((linear_x twist)\<^sup>2 + (linear_y twist)\<^sup>2) > maxLinearVelocity self \<longrightarrow>
      cb_vLinear self twist =
        (if sq_limit \<le> \<bar>linear_x twist\<bar> \<or> sq_limit \<le> \<bar>linear_y twist\<bar> then Inl OverflowError
         else Inr (maxLinearVelocity self)) \<and>
      sqrt ((cb_xVel (maxLinearVelocity self) (cb_Heading twist))\<^sup>2
            + (cb_yVel (maxLinearVelocity self) (cb_Heading twist))\<^sup>2)
        = \<bar>maxLinearVelocity self\<bar>)"
proof (intro conjI impI)
  assume e: "sqrt ((linear_x twist)\<^sup>2 + (linear_y twist)\<^sup>2) = maxLinearVelocity self"
  show "cb_vLinear self twist =
        (if sq_limit \<le> \<bar>linear_x twist\<bar> \<or> sq_limit \<le> \<bar>linear_y twist\<bar> then Inl OverflowError
         else Inr (sqrt ((linear_x twist)\<^sup>2 + (linear_y twist)\<^sup>2)))"
    unfolding cb_vLinear_closed using e by simp
  show "cb_xVel (sqrt ((linear_x twist)\<^sup>2 + (linear_y twist)\<^sup>2)) (cb_Heading twist)
        = linear_x twist"
    by (rule cb_recompose(1))
  show "cb_yVel (sqrt ((linear_x twist)\<^sup>2 + (linear_y twist)\<^sup>2)) (cb_Heading twist)
        = linear_y twist"
    by (rule cb_recompose(2))
next
  assume g: "sqrt ((linear_x twist)\<^sup>2 + (linear_y twist)\<^sup>2) > maxLinearVelocity self"
  then have "min (sqrt ((linear_x twist)\<^sup>2 + (linear_y twist)\<^sup>2)) (maxLinearVelocity self)
               = maxLinearVelocity self"
    by simp
  then show "cb_vLinear self twist =
        (if sq_limit \<le> \<bar>linear_x twist\<bar> \<or> sq_limit \<le> \<bar>linear_y twist\<bar> then Inl OverflowError
         else Inr (maxLinearVelocity self))"
    unfolding cb_vLinear_closed by simp
  show "sqrt ((cb_xVel (maxLinearVelocity self) (cb_Heading twist))\<^sup>2
            + (cb_yVel (maxLinearVelocity self) (cb_Heading twist))\<^sup>2)
        = \<bar>maxLinearVelocity self\<bar>"
    by (rule cb_norm)
qed

theorem C7_saturation_boundary_witness:
  "(sqrt ((linear_x (planar_twist 0 1 0))\<^sup>2 + (linear_y (planar_twist 0 1 0))\<^sup>2)
      = maxLinearVelocity default_geometry \<and>
    cb_vLinear default_geometry (planar_twist 0 1 0) = Inr 1 \<and>
    cb_xVel 1 (cb_Heading (planar_twist 0 1 0)) = 0 \<and>
    cb_yVel 1 (cb_Heading (planar_twist 0 1 0)) = 1) \<and>
   (sqrt ((linear_x (planar_twist 0 2 0))\<^sup>2 + (linear_y (planar_twist 0 2 0))\<^sup>2)
      > maxLinearVelocity default_geometry \<and>
    cb_vLinear default_geometry (planar_twist 0 2 0) = Inr 1 \<and>
    sqrt ((cb_xVel 1 (cb_Heading (planar_twist 0 2 0)))\<^sup>2
          + (cb_yVel 1 (cb_Heading (planar_twist 0 2 0)))\<^sup>2) = 1)"
proof -
  have a: "sqrt ((linear_x (planar_twist 0 1 0))\<^sup>2 + (linear_y (planar_twist 0 1 0))\<^sup>2)
      = maxLinearVelocity default_geometry"
    by (simp add: planar_twist_def default_geometry_def)
  have a1: "sqrt ((linear_x (planar_twist 0 1 0))\<^sup>2 + (linear_y (planar_twist 0 1 0))\<^sup>2) = 1"
    by (simp add: planar_twist_def)
  have b: "sqrt ((linear_x (planar_twist 0 2 0))\<^sup>2 + (linear_y (planar_twist 0 2 0))\<^sup>2)
      > maxLinearVelocity default_geometry"
    by (simp add: planar_twist_def default_geometry_def)
  have m: "maxLinearVelocity default_geometry = 1" by (simp add: default_geometry_def)
  have t: "linear_x (planar_twist 0 1 0) = 0" "linear_y (planar_twist 0 1 0) = 1"
    by (simp_all add: planar_twist_def)
  have s1: "\<not> (sq_limit \<le> \<bar>linear_x (planar_twist 0 1 0)\<bar>
              \<or> sq_limit \<le> \<bar>linear_y (planar_twist 0 1 0)\<bar>)"
    using small_below_sq_limit [of 0] small_below_sq_limit [of 1]
    by (simp add: planar_twist_def not_le)
  have s2: "\<not> (sq_limit \<le> \<bar>linear_x (planar_twist 0 2 0)\<bar>
              \<or> sq_limit \<le> \<bar>linear_y (planar_twist 0 2 0)\<bar>)"
    using small_below_sq_limit [of 0] small_below_sq_limit [of 2]
    by (simp add: planar_twist_def not_le)
  have p: "cb_vLinear default_geometry (planar_twist 0 1 0) = Inr 1 \<and>
      cb_xVel 1 (cb_Heading (planar_twist 0 1 0)) = 0 \<and>
      cb_yVel 1 (cb_Heading (planar_twist 0 1 0)) = 1"
    using a s1 C7_saturation_boundary [of "planar_twist 0 1 0" default_geometry]
    unfolding a1 t by simp
  have q: "cb_vLinear default_geometry (planar_twist 0 2 0) = Inr 1 \<and>
      sqrt ((cb_xVel 1 (cb_Heading (planar_twist 0 2 0)))\<^sup>2
          + (cb_yVel 1 (cb_Heading (planar_twist 0 2 0)))\<^sup>2) = 1"
    using b s2 C7_saturation_boundary [of "planar_twist 0 2 0" default_geometry]
    unfolding m by simp
  show ?thesis using a b p q by simp
qed

section \<open>The callback as a whole\<close>

lemma cb_w_closed:
  "cb_w self twist =
     (if sq_limit \<le> \<bar>linear_x twist\<bar> \<or> sq_limit \<le> \<bar>linear_y twist\<bar> \<or>
         sq_limit \<le> \<bar>angular_z twist\<bar> \<or> sq_limit \<le> \<bar>maxAngularVelocity self\<bar>
      then Inl OverflowError
      else InverseKinematics self
             (cb_xVel (min (sqrt ((linear_x twist)\<^sup>2 + (linear_y twist)\<^sup>2))
                           (maxLinearVelocity self)) (cb_Heading twist))
             (cb_yVel (min (sqrt ((linear_x twist)\<^sup>2 + (linear_y twist)\<^sup>2))
                           (maxLinearVelocity self)) (cb_Heading twist))
             (if (angular_z twist)\<^sup>2 > (maxAngularVelocity self)\<^sup>2
              then maxAngularVelocity self * sgn (angular_z twist) else angular_z twist))"
  by (simp add: cb_w_def cb_vLinear_closed cb_yawVel_closed Let_def)

lemma cb_w_small:
  assumes "\<bar>linear_x twist\<bar> \<le> 4096" "\<bar>linear_y twist\<bar> \<le> 4096" "\<bar>angular_z twist\<bar> \<le> 4096"
    "\<bar>maxAngularVelocity self\<bar> \<le> 4096"
  shows "cb_w self twist =
     InverseKinematics self
       (cb_xVel (min (sqrt ((linear_x twist)\<^sup>2 + (linear_y twist)\<^sup>2))
                     (maxLinearVelocity self)) (cb_Heading twist))
       (cb_yVel (min (sqrt ((linear_x twist)\<^sup>2 + (linear_y twist)\<^sup>2))
                     (maxLinearVelocity self)) (cb_Heading twist))
       (if (angular_z twist)\<^sup>2 > (maxAngularVelocity self)\<^sup>2
        then maxAngularVelocity self * sgn (angular_z twist) else angular_z twist)"
proof -
  have "\<not> (sq_limit \<le> \<bar>linear_x twist\<bar> \<or> sq_limit \<le> \<bar>linear_y twist\<bar> \<or>
         sq_limit \<le> \<bar>angular_z twist\<bar> \<or> sq_limit \<le> \<bar>maxAngularVelocity self\<bar>)"
    using assms [THEN small_below_sq_limit] by (simp add: not_le)
  then show ?thesis unfolding cb_w_closed by simp
qed

lemma default_yaw_limit_small: "\<bar>maxAngularVelocity default_geometry\<bar> \<le> 4096"
  using pi_sixth_small by (simp add: default_geometry_def)

lemma cb_w_pure_yaw:
  "cb_w default_geometry (planar_twist 0 0 1) =
     Inr [61 * pi / 6, 61 * pi / 6, 61 * pi / 6, 61 * pi / 6]"
proof -
  have m: "(maxAngularVelocity default_geometry)\<^sup>2 < 1"
    using pi_sixth_sq_less_1 by (simp add: default_geometry_def)
  have l: "maxLinearVelocity default_geometry = 1" by (simp add: default_geometry_def)
  have "cb_w default_geometry (planar_twist 0 0 1) =
     InverseKinematics default_geometry 0 0 (maxAngularVelocity default_geometry)"
    using m by (subst cb_w_small)
      (simp_all add: default_yaw_limit_small l planar_twist_def cb_xVel_def cb_yVel_def)
  then show ?thesis
    by (simp add: InverseKinematics_closed) (simp add: default_geometry_def)
qed

lemma callback_error_iff:
  "callback self twist = Inl ZeroDivisionError \<longleftrightarrow>
     radius self = 0 \<and> \<bar>linear_x twist\<bar> < sq_limit \<and> \<bar>linear_y twist\<bar> < sq_limit \<and>
     \<bar>angular_z twist\<bar> < sq_limit \<and> \<bar>maxAngularVelocity self\<bar> < sq_limit"
  by (auto simp add: callback_def cb_w_closed InverseKinematics_closed not_le split: if_splits)

text \<open>
  Claim C9, amended. For the zero input and any geometry with a positive wheel radius and a
  \<open>maxLinearVelocity\<close> that is not negative, the four published wheel speeds are exactly 0
  (unless \<open>maxAngularVelocity\<close> is so large that its square overflows: then the callback
  raises and publishes nothing).
\<close>

theorem C9_zero_input:
  assumes "0 < radius self" and "0 \<le> maxLinearVelocity self"
  shows "callback self (planar_twist 0 0 0) =
           (if sq_limit \<le> \<bar>maxAngularVelocity self\<bar> then Inl OverflowError
            else Inr [\<lparr>mode = 0, setpoint = 0\<rparr>, \<lparr>mode = 0, setpoint = 0\<rparr>,
                      \<lparr>mode = 0, setpoint = 0\<rparr>, \<lparr>mode = 0, setpoint = 0\<rparr>])"
proof (cases "sq_limit \<le> \<bar>maxAngularVelocity self\<bar>")
  case True
  then show ?thesis by (simp add: callback_def cb_w_closed)
next
  case False
  have z: "\<not> sq_limit \<le> 0" using sq_limit_pos by simp
  have "cb_w self (planar_twist 0 0 0) = Inr [0, 0, 0, 0]"
    using assms False z
    by (simp add: cb_w_closed planar_twist_def cb_xVel_def cb_yVel_def InverseKinematics_closed)
  then show ?thesis using False by (simp add: callback_def)
qed

theorem C9_zero_input_witness:
  "0 < radius default_geometry \<and> 0 \<le> maxLinearVelocity default_geometry \<and>
   callback default_geometry (planar_twist 0 0 0) =
     Inr [\<lparr>mode = 0, setpoint = 0\<rparr>, \<lparr>mode = 0, setpoint = 0\<rparr>,
          \<lparr>mode = 0, setpoint = 0\<rparr>, \<lparr>mode = 0, setpoint = 0\<rparr>]"
proof -
  have a: "0 < radius default_geometry" and b: "0 \<le> maxLinearVelocity default_geometry"
    by (simp_all add: default_geometry_def)
  have s: "\<not> sq_limit \<le> \<bar>maxAngularVelocity default_geometry\<bar>"
    using small_below_sq_limit [OF pi_sixth_small] by (simp add: default_geometry_def not_le)
  show ?thesis using a b s C9_zero_input [OF a b] by simp
qed

text \<open>
  A positive wheel radius alone is not enough: the linear clamp replaces the magnitude 0 by
  a negative \<open>maxLinearVelocity\<close>, the heading of the zero vector is 0, and the wheels turn.
\<close>

theorem C9_zero_input_counterexample:
  "0 < radius (default_geometry\<lparr>maxLinearVelocity := - 1\<rparr>) \<and>
   callback (default_geometry\<lparr>maxLinearVelocity := - 1\<rparr>) (planar_twist 0 0 0) =
     Inr [\<lparr>mode = 0, setpoint = 100\<rparr>, \<lparr>mode = 0, setpoint = - 100\<rparr>,
          \<lparr>mode = 0, setpoint = 100\<rparr>, \<lparr>mode = 0, setpoint = - 100\<rparr>]"
proof -
  let ?g = "default_geometry\<lparr>maxLinearVelocity := - 1\<rparr>"
  have "cb_w ?g (planar_twist 0 0 0) = InverseKinematics ?g (- 1) 0 0"
    by (subst cb_w_small)
      (simp_all add: default_yaw_limit_small planar_twist_def cb_xVel_def cb_yVel_def
        cb_Heading_def atan2_def)
  then have "cb_w ?g (planar_twist 0 0 0) = Inr [100, - 100, 100, - 100]"
    by (simp add: InverseKinematics_closed) (simp add: default_geometry_def)
  then show ?thesis by (simp add: callback_def) (simp add: default_geometry_def)
qed

text \<open>
  Claim C5, amended. For the pure yaw input \<open>(0, 0, 1)\<close> and the default geometry, which is
  what startup builds when no parameter is set, the yaw rate is clamped to \<open>pi / 6\<close> and all
  four published wheel speeds are equal to \<open>61 * pi / 6\<close>, which is positive: front and rear
  agree on each side, and left and right agree in magnitude and in sign.
\<close>

theorem C5_pure_yaw:
  "init Map.empty = Inr default_geometry \<and>
   callback default_geometry (planar_twist 0 0 1) =
     Inr [\<lparr>mode = 0, setpoint = 61 * pi / 6\<rparr>, \<lparr>mode = 0, setpoint = 61 * pi / 6\<rparr>,
          \<lparr>mode = 0, setpoint = 61 * pi / 6\<rparr>, \<lparr>mode = 0, setpoint = 61 * pi / 6\<rparr>] \<and>
   (0::real) < 61 * pi / 6"
proof -
  have i: "init Map.empty = Inr default_geometry"
    by (simp add: init_def get_param_def default_geometry_def)
  have c: "callback default_geometry (planar_twist 0 0 1) =
     Inr [\<lparr>mode = 0, setpoint = 61 * pi / 6\<rparr>, \<lparr>mode = 0, setpoint = 61 * pi / 6\<rparr>,
          \<lparr>mode = 0, setpoint = 61 * pi / 6\<rparr>, \<lparr>mode = 0, setpoint = 61 * pi / 6\<rparr>]"
    by (simp add: callback_def cb_w_pure_yaw)
  show ?thesis using i c by simp
qed

text \<open>
  The front left and the front right wheel speed are the same positive number, so they are
  not of opposite sign: the factor \<open>(-1)^k\<close> cancels the opposite signs of the yaw
  coefficients in the left and right rows of \<open>J\<close>.
\<close>

theorem C5_pure_yaw_counterexample:
  "cb_w default_geometry (planar_twist 0 0 1) =
     Inr [61 * pi / 6, 61 * pi / 6, 61 * pi / 6, 61 * pi / 6] \<and>
   \<not> (61 * pi / 6 = - (61 * pi / 6))"
  by (simp add: cb_w_pure_yaw)

section \<open>Startup\<close>

text \<open>
  Claim C2, amended. Startup validates nothing: whatever the values of \<open>alpha\<close>, \<open>beta\<close>,
  \<open>wheel_radius\<close> and \<open>gearbox_ratio\<close>, zero and negative ones included, \<open>init\<close> stores them
  unchanged, and it fails only when \<open>angular_vel_div\<close> is zero. A zero wheel radius shows
  later, and only there: the callback raises the division error on a command exactly when
  the radius is zero and no square overflowed before the division is reached.
\<close>

theorem C2_no_startup_validation:
  "init (ps(''alpha'' \<mapsto> a, ''beta'' \<mapsto> b, ''wheel_radius'' \<mapsto> r, ''gearbox_ratio'' \<mapsto> gb)) =
     (if get_param ps ''angular_vel_div'' 6 = 0 then Inl ZeroDivisionError
      else Inr \<lparr>alpha = a, beta = b, radius = r,
                maxLinearVelocity = get_param ps ''max_linear_vel'' 1,
                maxAngularVelocity = pi / get_param ps ''angular_vel_div'' 6,
                gb_ratio = gb\<rparr>) \<and>
   (callback self twist = Inl ZeroDivisionError \<longleftrightarrow>
      radius self = 0 \<and> \<bar>linear_x twist\<bar> < sq_limit \<and> \<bar>linear_y twist\<bar> < sq_limit \<and>
      \<bar>angular_z twist\<bar> < sq_limit \<and> \<bar>maxAngularVelocity self\<bar> < sq_limit)"
  by (simp add: init_def get_param_def callback_error_iff)

text \<open>
  A wheel radius of \<open>-1\<close> is accepted at startup, and the forward command \<open>(1, 0, 0)\<close> is
  then processed and published, with the signs of the wheel speeds flipped.
\<close>

theorem C2_startup_counterexample:
  "init (Map.empty(''wheel_radius'' \<mapsto> - 1)) = Inr (default_geometry\<lparr>radius := - 1\<rparr>) \<and>
   callback (default_geometry\<lparr>radius := - 1\<rparr>) (planar_twist 1 0 0) =
     Inr [\<lparr>mode = 0, setpoint = 15 / 2\<rparr>, \<lparr>mode = 0, setpoint = - (15 / 2)\<rparr>,
          \<lparr>mode = 0, setpoint = 15 / 2\<rparr>, \<lparr>mode = 0, setpoint = - (15 / 2)\<rparr>]"
proof -
  let ?g = "default_geometry\<lparr>radius := - 1\<rparr>"
  have i: "init (Map.empty(''wheel_radius'' \<mapsto> - 1)) = Inr ?g"
    by (simp add: init_def get_param_def default_geometry_def)
  have m: "maxLinearVelocity default_geometry = 1" by (simp add: default_geometry_def)
  have "cb_w ?g (planar_twist 1 0 0) = InverseKinematics ?g 1 0 0"
    by (subst cb_w_small)
      (simp_all add: default_yaw_limit_small m planar_twist_def cb_xVel_def cb_yVel_def
        cb_Heading_def atan2_def)
  then have "cb_w ?g (planar_twist 1 0 0) = Inr [15 / 2, - (15 / 2), 15 / 2, - (15 / 2)]"
    by (simp add: InverseKinematics_closed) (simp add: default_geometry_def)
  then have "callback ?g (planar_twist 1 0 0) =
     Inr [\<lparr>mode = 0, setpoint = 15 / 2\<rparr>, \<lparr>mode = 0, setpoint = - (15 / 2)\<rparr>,
          \<lparr>mode = 0, setpoint = 15 / 2\<rparr>, \<lparr>mode = 0, setpoint = - (15 / 2)\<rparr>]"
    by (simp add: callback_def)
  then show ?thesis using i by simp
qed

section \<open>A uniform bound on the wheel speeds\<close>

lemma abs_cos_sin_le: "\<bar>cos h\<bar> + \<bar>sin h\<bar> \<le> sqrt 2"
proof -
  have "0 \<le> (\<bar>cos h\<bar> - \<bar>sin h\<bar>)\<^sup>2" by simp
  then have "2 * \<bar>cos h\<bar> * \<bar>sin h\<bar> \<le> (cos h)\<^sup>2 + (sin h)\<^sup>2"
    by (simp add: power2_diff)
  then have "2 * \<bar>cos h\<bar> * \<bar>sin h\<bar> \<le> 1" by simp
  moreover have "(\<bar>cos h\<bar> + \<bar>sin h\<bar>)\<^sup>2 = (cos h)\<^sup>2 + (sin h)\<^sup>2 + 2 * \<bar>cos h\<bar> * \<bar>sin h\<bar>"
    by (simp add: power2_sum)
  ultimately have "(\<bar>cos h\<bar> + \<bar>sin h\<bar>)\<^sup>2 \<le> 2" by simp
  then show ?thesis by (rule real_le_rsqrt)
qed

lemma cb_linear_bound:
  assumes "0 \<le> v" "v \<le> L"
  shows "\<bar>cb_xVel v h\<bar> + \<bar>cb_yVel v h\<bar> \<le> sqrt 2 * L"
proof -
  have "\<bar>cb_xVel v h\<bar> + \<bar>cb_yVel v h\<bar> = v * (\<bar>cos h\<bar> + \<bar>sin h\<bar>)"
    using assms(1) by (simp add: cb_xVel_def cb_yVel_def abs_mult distrib_left)
  also have "\<dots> \<le> v * sqrt 2"
    using assms(1) abs_cos_sin_le by (rule mult_left_mono [rotated])
  also have "\<dots> \<le> L * sqrt 2"
    using assms(2) by (simp add: mult_right_mono)
  finally show ?thesis by (simp add: mult.commute)
qed

lemma scaled_bound:
  assumes "0 < (g::real)" "0 < r" "\<bar>e\<bar> \<le> M"
  shows "\<bar>g / 2 * (1 / r) * e\<bar> \<le> g / (2 * r) * M"
    and "\<bar>- g / 2 * (1 / r) * e\<bar> \<le> g / (2 * r) * M"
proof -
  have p: "0 \<le> g / (2 * r)" using assms(1,2) by simp
  have "\<bar>g / 2 * (1 / r) * e\<bar> = g / (2 * r) * \<bar>e\<bar>"
    using assms(1,2) by (simp add: abs_mult)
  also have "\<dots> \<le> g / (2 * r) * M" using p assms(3) by (rule mult_left_mono [rotated])
  finally show "\<bar>g / 2 * (1 / r) * e\<bar> \<le> g / (2 * r) * M" .
  have "\<bar>- g / 2 * (1 / r) * e\<bar> = g / (2 * r) * \<bar>e\<bar>"
    using assms(1,2) by (simp add: abs_mult)
  also have "\<dots> \<le> g / (2 * r) * M" using p assms(3) by (rule mult_left_mono [rotated])
  finally show "\<bar>- g / 2 * (1 / r) * e\<bar> \<le> g / (2 * r) * M" .
qed

lemma sum3_bound:
  assumes "\<bar>x\<bar> + \<bar>y\<bar> \<le> L" "\<bar>c\<bar> \<le> A" "0 \<le> (s::real)"
  shows "\<bar>x - y - s * c\<bar> \<le> L + s * A" "\<bar>x + y + s * c\<bar> \<le> L + s * A"
    "\<bar>x + y - s * c\<bar> \<le> L + s * A" "\<bar>x - y + s * c\<bar> \<le> L + s * A"
proof -
  have "\<bar>s * c\<bar> = s * \<bar>c\<bar>" using assms(3) by (simp add: abs_mult)
  also have "\<dots> \<le> s * A" using assms(2,3) by (simp add: mult_left_mono)
  finally have sc: "\<bar>s * c\<bar> \<le> s * A" .
  show "\<bar>x - y - s * c\<bar> \<le> L + s * A" using assms(1) sc by linarith
  show "\<bar>x + y + s * c\<bar> \<le> L + s * A" using assms(1) sc by linarith
  show "\<bar>x + y - s * c\<bar> \<le> L + s * A" using assms(1) sc by linarith
  show "\<bar>x - y + s * c\<bar> \<le> L + s * A" using assms(1) sc by linarith
qed

text \<open>
  Claim C10, amended. When \<open>alpha\<close>, \<open>beta\<close>, the wheel radius, the gearbox ratio and the two
  speed limits are all positive, and the three components of the input and
  \<open>maxAngularVelocity\<close> are below \<open>2 ^ 512\<close> in absolute value, the callback publishes four
  wheel speeds, each at most
  \<open>gb_ratio / (2 * radius) * (sqrt 2 * maxLinearVelocity + (alpha + beta) * maxAngularVelocity)\<close>
  in absolute value. From \<open>2 ^ 512\<close> on, a square raises \<^verbatim>\<open>OverflowError\<close> before the clamp
  it belongs to, and the callback publishes nothing.
\<close>

theorem C10_uniform_bound:
  assumes "0 < alpha self" "0 < beta self" "0 < radius self" "0 < gb_ratio self"
    "0 < maxLinearVelocity self" "0 < maxAngularVelocity self"
  shows "if sq_limit \<le> \<bar>linear_x twist\<bar> \<or> sq_limit \<le> \<bar>linear_y twist\<bar> \<or>
            sq_limit \<le> \<bar>angular_z twist\<bar> \<or> sq_limit \<le> \<bar>maxAngularVelocity self\<bar>
         then callback self twist = Inl OverflowError
         else (\<exists>w0 w1 w2 w3.
           callback self twist =
             Inr [\<lparr>mode = 0, setpoint = w0\<rparr>, \<lparr>mode = 0, setpoint = w1\<rparr>,
                  \<lparr>mode = 0, setpoint = w2\<rparr>, \<lparr>mode = 0, setpoint = w3\<rparr>] \<and>
           \<bar>w0\<bar> \<le> gb_ratio self / (2 * radius self) *
                   (sqrt 2 * maxLinearVelocity self
                    + (alpha self + beta self) * maxAngularVelocity self) \<and>
           \<bar>w1\<bar> \<le> gb_ratio self / (2 * radius self) *
                   (sqrt 2 * maxLinearVelocity self
                    + (alpha self + beta self) * maxAngularVelocity self) \<and>
           \<bar>w2\<bar> \<le> gb_ratio self / (2 * radius self) *
                   (sqrt 2 * maxLinearVelocity self
                    + (alpha self + beta self) * maxAngularVelocity self) \<and>
           \<bar>w3\<bar> \<le> gb_ratio self / (2 * radius self) *
                   (sqrt 2 * maxLinearVelocity self
                    + (alpha self + beta self) * maxAngularVelocity self))"
proof (cases "sq_limit \<le> \<bar>linear_x twist\<bar> \<or> sq_limit \<le> \<bar>linear_y twist\<bar> \<or>
            sq_limit \<le> \<bar>angular_z twist\<bar> \<or> sq_limit \<le> \<bar>maxAngularVelocity self\<bar>")
  case True
  then have "cb_w self twist = Inl OverflowError" unfolding cb_w_closed by simp
  then have "callback self twist = Inl OverflowError" by (simp add: callback_def)
  then show ?thesis using True by simp
next
  case n: False
  let ?v = "min (sqrt ((linear_x twist)\<^sup>2 + (linear_y twist)\<^sup>2)) (maxLinearVelocity self)"
  let ?x = "cb_xVel ?v (cb_Heading twist)" and ?y = "cb_yVel ?v (cb_Heading twist)"
  let ?c = "if (angular_z twist)\<^sup>2 > (maxAngularVelocity self)\<^sup>2
            then maxAngularVelocity self * sgn (angular_z twist) else angular_z twist"
  let ?s = "alpha self + beta self"
  let ?L = "sqrt 2 * maxLinearVelocity self"
  let ?A = "maxAngularVelocity self"
  have v0: "0 \<le> ?v" using assms(5) by simp
  have v1: "?v \<le> maxLinearVelocity self" by simp
  have l: "\<bar>?x\<bar> + \<bar>?y\<bar> \<le> ?L" by (rule cb_linear_bound [OF v0 v1])
  have a: "\<bar>?c\<bar> \<le> ?A" using assms(6) by (intro clamp_abs_le) simp
  have s: "0 \<le> ?s" using assms(1,2) by simp
  note e = sum3_bound [OF l a s]
  have b0: "\<bar>- gb_ratio self / 2 * (1 / radius self) * (?x - ?y - ?s * ?c)\<bar>
              \<le> gb_ratio self / (2 * radius self) * (?L + ?s * ?A)"
    by (rule scaled_bound(2) [OF assms(4) assms(3) e(1)])
  have b1: "\<bar>gb_ratio self / 2 * (1 / radius self) * (?x + ?y + ?s * ?c)\<bar>
              \<le> gb_ratio self / (2 * radius self) * (?L + ?s * ?A)"
    by (rule scaled_bound(1) [OF assms(4) assms(3) e(2)])
  have b2: "\<bar>- gb_ratio self / 2 * (1 / radius self) * (?x + ?y - ?s * ?c)\<bar>
              \<le> gb_ratio self / (2 * radius self) * (?L + ?s * ?A)"
    by (rule scaled_bound(2) [OF assms(4) assms(3) e(3)])
  have b3: "\<bar>gb_ratio self / 2 * (1 / radius self) * (?x - ?y + ?s * ?c)\<bar>
              \<le> gb_ratio self / (2 * radius self) * (?L + ?s * ?A)"
    by (rule scaled_bound(1) [OF assms(4) assms(3) e(4)])
  have r: "radius self \<noteq> 0" using assms(3) by simp
  have w: "cb_w self twist =
      Inr [- gb_ratio self / 2 * (1 / radius self) * (?x - ?y - ?s * ?c),
           gb_ratio self / 2 * (1 / radius self) * (?x + ?y + ?s * ?c),
           - gb_ratio self / 2 * (1 / radius self) * (?x + ?y - ?s * ?c),
           gb_ratio self / 2 * (1 / radius self) * (?x - ?y + ?s * ?c)]"
    unfolding cb_w_closed InverseKinematics_closed using r n by simp
  have "callback self twist =
      Inr [\<lparr>mode = 0, setpoint = - gb_ratio self / 2 * (1 / radius self) * (?x - ?y - ?s * ?c)\<rparr>,
           \<lparr>mode = 0, setpoint = gb_ratio self / 2 * (1 / radius self) * (?x + ?y + ?s * ?c)\<rparr>,
           \<lparr>mode = 0, setpoint = - gb_ratio self / 2 * (1 / radius self) * (?x + ?y - ?s * ?c)\<rparr>,
           \<lparr>mode = 0, setpoint = gb_ratio self / 2 * (1 / radius self) * (?x - ?y + ?s * ?c)\<rparr>]"
    unfolding callback_def w by simp
  then have "\<exists>w0 w1 w2 w3.
           callback self twist =
             Inr [\<lparr>mode = 0, setpoint = w0\<rparr>, \<lparr>mode = 0, setpoint = w1\<rparr>,
                  \<lparr>mode = 0, setpoint = w2\<rparr>, \<lparr>mode = 0, setpoint = w3\<rparr>] \<and>
           \<bar>w0\<bar> \<le> gb_ratio self / (2 * radius self) * (?L + ?s * ?A) \<and>
           \<bar>w1\<bar> \<le> gb_ratio self / (2 * radius self) * (?L + ?s * ?A) \<and>
           \<bar>w2\<bar> \<le> gb_ratio self / (2 * radius self) * (?L + ?s * ?A) \<and>
           \<bar>w3\<bar> \<le> gb_ratio self / (2 * radius self) * (?L + ?s * ?A)"
    using b0 b1 b2 b3 by blast
  then show ?thesis using n by simp
qed

theorem C10_uniform_bound_witness:
  "0 < alpha default_geometry \<and> 0 < beta default_geometry \<and> 0 < radius default_geometry \<and>
   0 < gb_ratio default_geometry \<and> 0 < maxLinearVelocity default_geometry \<and>
   0 < maxAngularVelocity default_geometry \<and>
   (\<exists>w0 w1 w2 w3.
      callback default_geometry (planar_twist 1000 (- 2000) 3000) =
        Inr [\<lparr>mode = 0, setpoint = w0\<rparr>, \<lparr>mode = 0, setpoint = w1\<rparr>,
             \<lparr>mode = 0, setpoint = w2\<rparr>, \<lparr>mode = 0, setpoint = w3\<rparr>] \<and>
      \<bar>w0\<bar> \<le> 100 * (sqrt 2 + 61 / 100 * (pi / 6)) \<and>
      \<bar>w1\<bar> \<le> 100 * (sqrt 2 + 61 / 100 * (pi / 6)) \<and>
      \<bar>w2\<bar> \<le> 100 * (sqrt 2 + 61 / 100 * (pi / 6)) \<and>
      \<bar>w3\<bar> \<le> 100 * (sqrt 2 + 61 / 100 * (pi / 6)))"
proof -
  have h: "0 < alpha default_geometry" "0 < beta default_geometry" "0 < radius default_geometry"
    "0 < gb_ratio default_geometry" "0 < maxLinearVelocity default_geometry"
    "0 < maxAngularVelocity default_geometry"
    by (simp_all add: default_geometry_def)
  have v: "alpha default_geometry = 31 / 100" "beta default_geometry = 3 / 10"
    "radius default_geometry = 3 / 40" "gb_ratio default_geometry = 15"
    "maxLinearVelocity default_geometry = 1" "maxAngularVelocity default_geometry = pi / 6"
    by (simp_all add: default_geometry_def)
  have n: "\<not> (sq_limit \<le> \<bar>linear_x (planar_twist 1000 (- 2000) 3000)\<bar> \<or>
              sq_limit \<le> \<bar>linear_y (planar_twist 1000 (- 2000) 3000)\<bar> \<or>
              sq_limit \<le> \<bar>angular_z (planar_twist 1000 (- 2000) 3000)\<bar> \<or>
              sq_limit \<le> \<bar>maxAngularVelocity default_geometry\<bar>)"
    using small_below_sq_limit [of 1000] small_below_sq_limit [of 2000]
      small_below_sq_limit [of 3000] small_below_sq_limit [OF default_yaw_limit_small]
    by (simp add: planar_twist_def not_le)
  have "\<exists>w0 w1 w2 w3.
      callback default_geometry (planar_twist 1000 (- 2000) 3000) =
        Inr [\<lparr>mode = 0, setpoint = w0\<rparr>, \<lparr>mode = 0, setpoint = w1\<rparr>,
             \<lparr>mode = 0, setpoint = w2\<rparr>, \<lparr>mode = 0, setpoint = w3\<rparr>] \<and>
      \<bar>w0\<bar> \<le> gb_ratio default_geometry / (2 * radius default_geometry) *
                   (sqrt 2 * maxLinearVelocity default_geometry
                    + (alpha default_geometry + beta default_geometry)
                      * maxAngularVelocity default_geometry) \<and>
      \<bar>w1\<bar> \<le> gb_ratio default_geometry / (2 * radius default_geometry) *
                   (sqrt 2 * maxLinearVelocity default_geometry
                    + (alpha default_geometry + beta default_geometry)
                      * maxAngularVelocity default_geometry) \<and>
      \<bar>w2\<bar> \<le> gb_ratio default_geometry / (2 * radius default_geometry) *
                   (sqrt 2 * maxLinearVelocity default_geometry
                    + (alpha default_geometry + beta default_geometry)
                      * maxAngularVelocity default_geometry) \<and>
      \<bar>w3\<bar> \<le> gb_ratio default_geometry / (2 * radius default_geometry) *
                   (sqrt 2 * maxLinearVelocity default_geometry
                    + (alpha default_geometry + beta default_geometry)
                      * maxAngularVelocity default_geometry)"
    using C10_uniform_bound [OF h, of "planar_twist 1000 (- 2000) 3000"] n
    by (simp only: if_False)
  then show ?thesis using h unfolding v by simp
qed

text \<open>
  The default geometry has all six parameters positive; a forward speed of \<open>2 ^ 512\<close>
  raises in the first square, before the linear clamp, and nothing is published.
\<close>

theorem C10_uniform_bound_counterexample:
  "0 < alpha default_geometry \<and> 0 < beta default_geometry \<and> 0 < radius default_geometry \<and>
   0 < gb_ratio default_geometry \<and> 0 < maxLinearVelocity default_geometry \<and>
   0 < maxAngularVelocity default_geometry \<and>
   callback default_geometry (planar_twist (2 ^ 512) 0 0) = Inl OverflowError"
proof -
  have "cb_w default_geometry (planar_twist (2 ^ 512) 0 0) = Inl OverflowError"
    unfolding cb_w_closed by (simp add: planar_twist_def sq_limit_def)
  then have "callback default_geometry (planar_twist (2 ^ 512) 0 0) = Inl OverflowError"
    by (simp add: callback_def)
  then show ?thesis by (simp add: default_geometry_def)
qed

end
